theory Spec2Isabelle
  imports Main "HOL-Library.Log_Nat" "HOL-Library.Code_Target_Nat"
begin

section \<open>Strings\<close>

text \<open>
  A JavaScript string is a sequence of 16-bit code units. A code unit is modelled by its
  number; every function below is defined on all naturals, so a theorem about all lists
  covers all strings. \<open>js\<close> turns a literal into such a list.
\<close>

type_synonym code_unit = nat
type_synonym jsstring = "code_unit list"

definition js :: "string \<Rightarrow> jsstring" where
  "js s = map of_char s"

text \<open>
  The units that \<open>\s\<close> matches and \<open>String.prototype.trim\<close> strips (WhiteSpace and
  LineTerminator of ECMAScript): TAB, LF, VT, FF, CR, SP, NBSP, U+1680, U+2000..U+200A,
  U+2028, U+2029, U+202F, U+205F, U+3000, U+FEFF.
\<close>

definition is_space :: "code_unit \<Rightarrow> bool" where
  "is_space c \<longleftrightarrow>
     (9 \<le> c \<and> c \<le> 13) \<or> c = 32 \<or> c = 160 \<or> c = 5760 \<or> (8192 \<le> c \<and> c \<le> 8202) \<or>
     c = 8232 \<or> c = 8233 \<or> c = 8239 \<or> c = 8287 \<or> c = 12288 \<or> c = 65279"

text \<open>The units that \<open>.\<close> does not match (no \<open>s\<close> flag): LF, CR, U+2028, U+2029.\<close>

definition is_line_terminator :: "code_unit \<Rightarrow> bool" where
  "is_line_terminator c \<longleftrightarrow> c = 10 \<or> c = 13 \<or> c = 8232 \<or> c = 8233"

definition is_digit :: "code_unit \<Rightarrow> bool" where
  "is_digit c \<longleftrightarrow> 48 \<le> c \<and> c \<le> 57"

text \<open>\<open>\w\<close>: \<open>[A-Za-z0-9_]\<close>.\<close>

definition is_word_char :: "code_unit \<Rightarrow> bool" where
  "is_word_char c \<longleftrightarrow> (65 \<le> c \<and> c \<le> 90) \<or> (97 \<le> c \<and> c \<le> 122) \<or> is_digit c \<or> c = 95"

text \<open>
  Canonicalize of ECMAScript for the \<open>i\<close> flag without \<open>u\<close>: a unit is compared by its
  upper-case form. For ASCII that maps \<open>a..z\<close> to \<open>A..Z\<close>. A unit of 128 or more never
  canonicalizes to an ASCII unit; its Unicode upper-case form is not tabulated here and
  the unit stands for itself, which decides every comparison with a word character.
\<close>

definition canonicalize :: "code_unit \<Rightarrow> code_unit" where
  "canonicalize c = (if 97 \<le> c \<and> c \<le> 122 then c - 32 else c)"

definition trim :: "jsstring \<Rightarrow> jsstring" where
  "trim s = rev (dropWhile is_space (rev (dropWhile is_space s)))"

section \<open>Regular expressions\<close>

text \<open>
  The patterns of the validators use character classes, disjunction, \<open>?\<close>, \<open>*\<close> and
  \<open>+\<close> on a class, \<open>^\<close>, \<open>$\<close>, \<open>\b\<close>, capturing groups and one back-reference
  under the \<open>i\<close> flag. A pattern is a list of such items. \<open>EndGroup\<close> never occurs in a
  pattern: the matcher puts it after a group's body to record the capture.
\<close>

datatype rx =
    Chr "code_unit \<Rightarrow> bool"
  | Alt "rx list" "rx list"
  | Opt "rx list"
  | Star "code_unit \<Rightarrow> bool"
  | Bol
  | Eol
  | WordB
  | Group nat "rx list"
  | EndGroup nat nat
  | BackRefI nat

text \<open>A literal run of units, as \<open>25\<close> or \<open>00\<close> in the duration pattern.\<close>

definition Lit :: "string \<Rightarrow> rx list" where
  "Lit s = map (\<lambda>c. Chr (\<lambda>d. d = of_char c)) s"

text \<open>\<open>P+\<close> for a class \<open>P\<close>.\<close>

definition Plus :: "(code_unit \<Rightarrow> bool) \<Rightarrow> rx list" where
  "Plus P = [Chr P, Star P]"

text \<open>
  The backtracking matcher of ECMAScript, with the continuation as the list of items
  still to match. \<open>run rs bs as caps\<close>: can the items \<open>rs\<close> match from the position
  with the consumed input \<open>bs\<close> (last unit first) behind it and \<open>as\<close> ahead of it, the
  captures being \<open>caps\<close>? Alternatives are tried in the engine's order (greedy first),
  each only when the one before it failed. \<open>\b\<close> holds where exactly one of the two
  neighbouring units is a word character. A back-reference to a group that has not
  captured matches the empty string; otherwise it reads the captured units again,
  compared by \<open>canonicalize\<close>.
\<close>

fun word_at :: "jsstring \<Rightarrow> bool" where
  "word_at [] = False"
| "word_at (c # cs) = is_word_char c"

function run :: "rx list \<Rightarrow> jsstring \<Rightarrow> jsstring \<Rightarrow> (nat \<Rightarrow> jsstring option) \<Rightarrow> bool" where
  "run [] bs as caps = True"
| "run (Chr P # rs) bs [] caps = False"
| "run (Chr P # rs) bs (c # cs) caps = (if P c then run rs (c # bs) cs caps else False)"
| "run (Alt a b # rs) bs as caps =
     (if run (a @ rs) bs as caps then True else run (b @ rs) bs as caps)"
| "run (Opt a # rs) bs as caps =
     (if run (a @ rs) bs as caps then True else run rs bs as caps)"
| "run (Star P # rs) bs [] caps = run rs bs [] caps"
| "run (Star P # rs) bs (c # cs) caps =
     (if (if P c then run (Star P # rs) (c # bs) cs caps else False) then True
      else run rs bs (c # cs) caps)"
| "run (Bol # rs) bs as caps = (if bs = [] then run rs bs as caps else False)"
| "run (Eol # rs) bs as caps = (if as = [] then run rs bs as caps else False)"
| "run (WordB # rs) bs as caps =
     (if word_at bs \<noteq> word_at as then run rs bs as caps else False)"
| "run (Group n body # rs) bs as caps = run (body @ EndGroup n (length bs) # rs) bs as caps"
| "run (EndGroup n m # rs) bs as caps =
     run rs bs as (caps(n \<mapsto> rev (take (length bs - m) bs)))"
| "run (BackRefI n # rs) bs as caps =
     (case caps n of
        None \<Rightarrow> run rs bs as caps
      | Some s \<Rightarrow>
          if length s \<le> length as \<and> map canonicalize (take (length s) as) = map canonicalize s
          then run rs (rev (take (length s) as) @ bs) (drop (length s) as) caps
          else False)"
  by pat_completeness auto
termination
  by (relation "measures [\<lambda>(rs, bs, as, caps). length as, \<lambda>(rs, bs, as, caps). size_list size rs]")
     auto

text \<open>
  \<open>RegExp.prototype.test\<close> on a pattern without the \<open>g\<close> and \<open>y\<close> flags: is there a
  start position from which the pattern matches?
\<close>

definition regex_test :: "rx list \<Rightarrow> jsstring \<Rightarrow> bool" where
  "regex_test rs input =
     list_ex (\<lambda>i. run rs (rev (take i input)) (drop i input) (\<lambda>_. None))
       [0 ..< Suc (length input)]"

section \<open>The pattern catalog of the validators\<close>

text \<open>\<^verbatim>\<open>title: /^\S(?:.*\S)?$/\<close>\<close>

definition pattern_title :: "rx list" where
  "pattern_title =
     [Bol, Chr (\<lambda>c. \<not> is_space c),
      Opt [Star (\<lambda>c. \<not> is_line_terminator c), Chr (\<lambda>c. \<not> is_space c)],
      Eol]"

text \<open>\<^verbatim>\<open>duration: /^(0|[1-9]\d*)(\.(25|5|75|0|00))?$/\<close>\<close>

definition pattern_duration :: "rx list" where
  "pattern_duration =
     [Bol,
      Group 1 [Alt (Lit ''0'') [Chr (\<lambda>c. 49 \<le> c \<and> c \<le> 57), Star is_digit]],
      Opt [Group 2 (Lit ''.'' @
             [Group 3 [Alt (Lit ''25'') [Alt (Lit ''5'') [Alt (Lit ''75'')
                        [Alt (Lit ''0'') (Lit ''00'')]]]]])],
      Eol]"

text \<open>\<^verbatim>\<open>date: /^\d{4}-(0[1-9]|1[0-2])-(0[1-9]|[12]\d|3[01])$/\<close>\<close>

definition pattern_date :: "rx list" where
  "pattern_date =
     [Bol, Chr is_digit, Chr is_digit, Chr is_digit, Chr is_digit] @ Lit ''-'' @
     [Group 1 [Alt (Lit ''0'' @ [Chr (\<lambda>c. 49 \<le> c \<and> c \<le> 57)])
                   (Lit ''1'' @ [Chr (\<lambda>c. 48 \<le> c \<and> c \<le> 50)])]] @ Lit ''-'' @
     [Group 2 [Alt (Lit ''0'' @ [Chr (\<lambda>c. 49 \<le> c \<and> c \<le> 57)])
                   [Alt [Chr (\<lambda>c. c = 49 \<or> c = 50), Chr is_digit]
                        (Lit ''3'' @ [Chr (\<lambda>c. c = 48 \<or> c = 49)])]],
      Eol]"

text \<open>\<^verbatim>\<open>duplicateWords: /\b(\w+)\s+\1\b/i\<close>\<close>

definition pattern_duplicateWords :: "rx list" where
  "pattern_duplicateWords =
     [WordB, Group 1 (Plus is_word_char)] @ Plus is_space @ [BackRefI 1, WordB]"

section \<open>Numbers\<close>

text \<open>
  A Number is an IEEE 754 double: NaN, an infinity, or a finite value given by its sign
  (\<open>True\<close> for negative), its significand and its exponent, of magnitude
  \<open>significand * 2 ^ exponent\<close>. \<open>wf_num\<close> holds of the normalised forms, one for each
  double: a significand below \<open>2^53\<close>, an exponent from \<open>-1074\<close> to \<open>971\<close>, and a
  significand of at least \<open>2^52\<close> unless the exponent is the least one (the subnormal
  numbers and the two zeros).
\<close>

datatype jsnum = NaN | Infinity bool | Finite bool nat int

fun wf_num :: "jsnum \<Rightarrow> bool" where
  "wf_num NaN = True"
| "wf_num (Infinity neg) = True"
| "wf_num (Finite neg m e) \<longleftrightarrow>
     m < 2 ^ 53 \<and> - 1074 \<le> e \<and> e \<le> 971 \<and> (2 ^ 52 \<le> m \<or> e = - 1074)"

definition pow2 :: "int \<Rightarrow> rat" where
  "pow2 e = (if 0 \<le> e then 2 ^ nat e else 1 / 2 ^ nat (- e))"

definition pow10 :: "int \<Rightarrow> rat" where
  "pow10 e = (if 0 \<le> e then 10 ^ nat e else 1 / 10 ^ nat (- e))"

text \<open>The value of a finite number as a rational; the sign is kept apart.\<close>

fun magnitude :: "jsnum \<Rightarrow> rat" where
  "magnitude (Finite neg m e) = (if m = 0 then 0 else of_nat m * pow2 e)"
| "magnitude NaN = 0"
| "magnitude (Infinity neg) = 0"

fun is_negative :: "jsnum \<Rightarrow> bool" where
  "is_negative (Finite neg m e) = neg"
| "is_negative (Infinity neg) = neg"
| "is_negative NaN = False"

fun is_finite :: "jsnum \<Rightarrow> bool" where
  "is_finite (Finite neg m e) = True"
| "is_finite NaN = False"
| "is_finite (Infinity neg) = False"

text \<open>
  ``The Number value for \<open>y\<close>'' (ECMAScript 6.1.6.1) is the double nearest to \<open>y\<close>, the
  one with the even significand when two are equally near. So a positive rational \<open>y\<close>
  reads as the positive double \<open>m * 2^e\<close> exactly when it lies between the midpoints
  to the two neighbouring doubles, the midpoints included when \<open>m\<close> is even. The
  neighbour below a power of two is half as far away.
\<close>

definition rounds_to :: "rat \<Rightarrow> nat \<Rightarrow> int \<Rightarrow> bool" where
  "rounds_to y m e =
     (let hi = of_nat (2 * m + 1) * pow2 (e - 1);
          lo = (if m = 2 ^ 52 \<and> - 1074 < e then of_nat (4 * m - 1) * pow2 (e - 2)
                else of_nat (2 * m - 1) * pow2 (e - 1))
      in if even m then lo \<le> y \<and> y \<le> hi else lo < y \<and> y < hi)"

subsection \<open>Number::toString\<close>

function digits_of :: "nat \<Rightarrow> nat list" where
  "digits_of n = (if n < 10 then [n] else digits_of (n div 10) @ [n mod 10])"
  by pat_completeness auto
termination
  by (relation "measure id") auto

definition decimal :: "nat \<Rightarrow> jsstring" where
  "decimal n = map (\<lambda>d. 48 + d) (digits_of n)"

text \<open>
  Number::toString(x) for a finite positive \<open>x\<close> takes integers \<open>n\<close>, \<open>k\<close>, \<open>s\<close> with
  \<open>k \<ge> 1\<close>, \<open>10^(k-1) \<le> s < 10^k\<close>, the Number value for \<open>s * 10^(n-k)\<close> being
  \<open>x\<close>, and \<open>k\<close> as small as possible; among several such \<open>s\<close> the one whose
  \<open>s * 10^(n-k)\<close> is nearest to \<open>x\<close>, the even one of two equally near.

  \<open>x = m * 2^e\<close> has the finite decimal expansion \<open>X / 10^p\<close> with \<open>X = m * 2^e\<close>,
  \<open>p = 0\<close> for \<open>e \<ge> 0\<close>, and \<open>X = m * 5^(-e)\<close>, \<open>p = -e\<close> otherwise. With \<open>L\<close> the
  number of digits of \<open>X\<close>, the decimals of \<open>k\<close> digits nearest to \<open>x\<close> are the first
  \<open>k\<close> digits of \<open>X\<close> (\<open>X div 10^(L-k)\<close>) and that number plus one; if any decimal of
  \<open>k\<close> digits reads as \<open>x\<close>, one of these two does. \<open>candidate m e f k\<close> is the
  choice among the decimals of \<open>k\<close> digits, \<open>f = L - k\<close> digits of \<open>X\<close> being dropped.
  The search tries \<open>k = 1, 2, ...\<close> and ends at the latest with all \<open>L\<close> digits,
  which is \<open>x\<close> itself. The result is \<open>(s, k, n)\<close>.
\<close>

definition exact_int :: "nat \<Rightarrow> int \<Rightarrow> nat" where
  "exact_int m e = (if 0 \<le> e then m * 2 ^ nat e else m * 5 ^ nat (- e))"

definition exact_shift :: "int \<Rightarrow> nat" where
  "exact_shift e = (if 0 \<le> e then 0 else nat (- e))"

definition candidate :: "nat \<Rightarrow> int \<Rightarrow> nat \<Rightarrow> nat \<Rightarrow> (nat \<times> nat \<times> int) option" where
  "candidate m e f k =
     (let X = exact_int m e; p = exact_shift e;
          g = 10 ^ f;
          s = X div g; r = X mod g;
          n = int k + int f - int p;
          lo_ok = rounds_to (of_nat (s * g) / 10 ^ p) m e;
          hi_ok = rounds_to (of_nat ((s + 1) * g) / 10 ^ p) m e;
          lo = (s, k, n);
          hi = (if s + 1 = 10 ^ k then (10 ^ (k - 1), k, n + 1) else (s + 1, k, n))
      in if lo_ok \<and> hi_ok then
           Some (if 2 * r < g then lo else if g < 2 * r then hi else if even s then lo else hi)
         else if lo_ok then Some lo
         else if hi_ok then Some hi
         else None)"

fun shortest_from :: "nat \<Rightarrow> int \<Rightarrow> nat \<Rightarrow> nat \<Rightarrow> nat \<times> nat \<times> int" where
  "shortest_from m e 0 k = (exact_int m e, k, int k - int (exact_shift e))"
| "shortest_from m e (Suc f) k =
     (case candidate m e (Suc f) k of
        Some skn \<Rightarrow> skn
      | None \<Rightarrow> shortest_from m e f (Suc k))"

definition shortest_digits :: "nat \<Rightarrow> int \<Rightarrow> nat \<times> nat \<times> int" where
  "shortest_digits m e = shortest_from m e (length (digits_of (exact_int m e)) - 1) 1"

text \<open>The layout of the digits, steps 6 to 10 of Number::toString.\<close>

definition format_digits :: "nat \<times> nat \<times> int \<Rightarrow> jsstring" where
  "format_digits skn =
     (case skn of (s, k, n) \<Rightarrow>
      let ds = decimal s in
      if int k \<le> n \<and> n \<le> 21 then ds @ replicate (nat (n - int k)) 48
      else if 0 < n \<and> n \<le> 21 then take (nat n) ds @ js ''.'' @ drop (nat n) ds
      else if - 6 < n \<and> n \<le> 0 then js ''0.'' @ replicate (nat (- n)) 48 @ ds
      else
        let ex = js ''e'' @ (if n - 1 < 0 then js ''-'' else js ''+'') @ decimal (nat \<bar>n - 1\<bar>)
        in if k = 1 then ds @ ex else take 1 ds @ js ''.'' @ drop 1 ds @ ex)"

fun number_toString :: "jsnum \<Rightarrow> jsstring" where
  "number_toString NaN = js ''NaN''"
| "number_toString (Infinity neg) = (if neg then js ''-Infinity'' else js ''Infinity'')"
| "number_toString (Finite neg m e) =
     (if m = 0 then js ''0''
      else (if neg then js ''-'' else []) @ format_digits (shortest_digits m e))"

subsection \<open>Arithmetic\<close>

text \<open>
  The sum, product and quotient of two Numbers are the exact results read as doubles.
  \<open>round_to_double\<close> finds the double nearest to a positive rational: the exponent
  from the position of its leading bit, the significand rounded half to even.
\<close>

definition floor_log2 :: "rat \<Rightarrow> int" where
  "floor_log2 y =
     (case quotient_of y of (a, b) \<Rightarrow>
        let e0 = bitlen a - bitlen b in if pow2 e0 \<le> y then e0 else e0 - 1)"

definition round_half_even :: "rat \<Rightarrow> nat" where
  "round_half_even q =
     (let f = \<lfloor>q\<rfloor>; d = q - of_int f
      in nat (if d < 1 / 2 then f else if 1 / 2 < d then f + 1
              else if even f then f else f + 1))"

definition round_to_double :: "bool \<Rightarrow> rat \<Rightarrow> jsnum" where
  "round_to_double neg y =
     (let e = max (floor_log2 y - 52) (- 1074);
          m = round_half_even (y / pow2 e);
          m' = (if m = 2 ^ 53 then 2 ^ 52 else m);
          e' = (if m = 2 ^ 53 then e + 1 else e)
      in if m' = 0 then Finite neg 0 (- 1074)
         else if 971 < e' then Infinity neg
         else Finite neg m' e')"

definition signed_value :: "jsnum \<Rightarrow> rat" where
  "signed_value x = (if is_negative x then - magnitude x else magnitude x)"

definition of_rat_num :: "rat \<Rightarrow> jsnum" where
  "of_rat_num r = (if r = 0 then Finite False 0 (- 1074)
                   else round_to_double (r < 0) \<bar>r\<bar>)"

fun is_zero :: "jsnum \<Rightarrow> bool" where
  "is_zero (Finite neg m e) = (m = 0)"
| "is_zero NaN = False"
| "is_zero (Infinity neg) = False"

definition js_add :: "jsnum \<Rightarrow> jsnum \<Rightarrow> jsnum" where
  "js_add x y =
     (if x = NaN \<or> y = NaN then NaN
      else if \<not> is_finite x then
        (if \<not> is_finite y \<and> is_negative x \<noteq> is_negative y then NaN else x)
      else if \<not> is_finite y then y
      else if is_zero x \<and> is_zero y then Finite (is_negative x \<and> is_negative y) 0 (- 1074)
      else of_rat_num (signed_value x + signed_value y))"

definition js_mul :: "jsnum \<Rightarrow> jsnum \<Rightarrow> jsnum" where
  "js_mul x y =
     (if x = NaN \<or> y = NaN then NaN
      else let neg = (is_negative x \<noteq> is_negative y) in
      if \<not> is_finite x \<or> \<not> is_finite y then
        (if is_zero x \<or> is_zero y then NaN else Infinity neg)
      else if is_zero x \<or> is_zero y then Finite neg 0 (- 1074)
      else round_to_double neg (magnitude x * magnitude y))"

definition js_div :: "jsnum \<Rightarrow> jsnum \<Rightarrow> jsnum" where
  "js_div x y =
     (if x = NaN \<or> y = NaN then NaN
      else let neg = (is_negative x \<noteq> is_negative y) in
      if \<not> is_finite x then (if \<not> is_finite y then NaN else Infinity neg)
      else if \<not> is_finite y then Finite neg 0 (- 1074)
      else if is_zero y then (if is_zero x then NaN else Infinity neg)
      else if is_zero x then Finite neg 0 (- 1074)
      else round_to_double neg (magnitude x / magnitude y))"

text \<open>ToBoolean of a Number: false for the zeros and NaN.\<close>

definition truthy_num :: "jsnum \<Rightarrow> bool" where
  "truthy_num x \<longleftrightarrow> x \<noteq> NaN \<and> \<not> is_zero x"

text \<open>The Number of a non-negative literal such as \<open>100\<close> or \<open>0.25\<close>.\<close>

definition num :: "rat \<Rightarrow> jsnum" where
  "num r = of_rat_num r"

section \<open>Records of the registry\<close>

text \<open>
  A task as the form, the seed file and the store hold it. \<open>title\<close>, \<open>name\<close> and
  \<open>createdAt\<close> may be absent (\<open>None\<close>); for the other text fields the code treats an
  absent value as the empty string. The form writes \<open>title\<close>; \<open>name\<close> comes from
  older data only.
\<close>

record task =
  tid :: jsstring
  title :: "jsstring option"
  name :: "jsstring option"
  date :: jsstring
  category :: jsstring
  time :: jsstring
  duration :: jsnum
  status :: jsstring
  urgent :: bool
  cancelReason :: jsstring
  task_notes :: jsstring
  updatedAt :: jsstring
  createdAt :: "jsstring option"

record category_rec =
  cat_id :: jsstring
  label :: jsstring
  color :: jsstring
  cat_type :: jsstring

record settings_rec =
  capacity :: jsnum
  categories :: "category_rec list"

section \<open>Validators.validateTask\<close>

text \<open>\<open>a || b\<close> on two strings that may be absent: \<open>a\<close> if it is a non-empty string.\<close>

fun or_else :: "jsstring option \<Rightarrow> jsstring option \<Rightarrow> jsstring option" where
  "or_else None b = b"
| "or_else (Some s) b = (if s = [] then b else Some s)"

definition msg_title_required :: string where
  "msg_title_required = ''Activity title is required.''"

definition msg_title_padding :: string where
  "msg_title_padding = ''Title cannot have leading or trailing spaces.''"

definition msg_title_duplicate :: string where
  "msg_title_duplicate = ''Duplicate words detected. Please refine the title.''"

definition msg_duration :: string where
  "msg_duration = ''Duration must be in 0.25 (15 min) increments.''"

definition msg_date :: string where
  "msg_date = ''Please provide a valid date (YYYY-MM-DD).''"

definition msg_cancel :: string where
  "msg_cancel = ''A justification is required for registry deviations.''"

text \<open>
  The error object is a list of field and message in the order the fields are set;
  each field is set at most once.
\<close>

type_synonym errors = "(string \<times> string) list"

definition activityTitle :: "task \<Rightarrow> jsstring option" where
  "activityTitle data = or_else (name data) (title data)"

definition title_errors :: "jsstring option \<Rightarrow> errors" where
  "title_errors t =
     (case t of
        None \<Rightarrow> [(''title'', msg_title_required)]
      | Some s \<Rightarrow>
          if s = [] \<or> trim s = [] then [(''title'', msg_title_required)]
          else if \<not> regex_test pattern_title s then [(''title'', msg_title_padding)]
          else if regex_test pattern_duplicateWords s then [(''title'', msg_title_duplicate)]
          else [])"

definition duration_errors :: "jsnum \<Rightarrow> errors" where
  "duration_errors d =
     (let durationStr = number_toString d
      in if \<not> regex_test pattern_duration durationStr then [(''duration'', msg_duration)]
         else [])"

definition date_errors :: "jsstring \<Rightarrow> errors" where
  "date_errors d = (if \<not> regex_test pattern_date d then [(''date'', msg_date)] else [])"

definition cancel_errors :: "jsstring \<Rightarrow> jsstring \<Rightarrow> errors" where
  "cancel_errors st reason =
     (if st = js ''canceled'' then
        (if reason = [] \<or> length (trim reason) < 5 then [(''cancelReason'', msg_cancel)]
         else [])
      else [])"

definition validateTask :: "task \<Rightarrow> errors" where
  "validateTask data =
     title_errors (activityTitle data) @
     duration_errors (duration data) @
     date_errors (date data) @
     cancel_errors (status data) (cancelReason data)"

section \<open>The application state and App.handleSave\<close>

text \<open>
  \<open>State.tasks\<close> is a JavaScript array. Writing at index \<open>-1\<close> does not touch its
  elements: it sets the property \<open>"-1"\<close> of the array object, kept here as \<open>stray\<close>.
  \<open>persisted\<close> is what the store holds under the registry key: a text, the
  \<open>JSON.stringify\<close> of the state as it was at the last write. A \<open>snapshot\<close> is what
  \<open>JSON.stringify\<close> is given: it reads the elements of the array, not its property
  \<open>"-1"\<close>.
\<close>

record task_array =
  items :: "task list"
  stray :: "task option"

record snapshot =
  snap_tasks :: "task list"
  snap_settings :: settings_rec

record app_state =
  tasks :: task_array
  settings :: settings_rec
  persisted :: "jsstring option"
  modal_hidden :: bool
  alerts :: "string list"

text \<open>The fields of the activity form, as the DOM holds them.\<close>

record form =
  task_id :: jsstring
  act_title :: jsstring
  act_date :: jsstring
  act_category :: jsstring
  act_time :: jsstring
  act_duration :: jsstring
  act_status :: jsstring
  act_urgent :: bool
  act_cancel_reason :: jsstring
  act_notes :: jsstring

text \<open>
  What the browser supplies to one call of \<open>handleSave\<close>: \<open>parseFloat\<close>, the id that
  \<open>generateId()\<close> returns, the two \<open>new Date().toISOString()\<close> readings,
  \<open>JSON.stringify\<close>, and whether the store accepts the write (\<open>Storage.save\<close> catches
  a failed write and logs it).
\<close>

record browser =
  parseFloat :: "jsstring \<Rightarrow> jsnum"
  generateId :: jsstring
  now_first :: jsstring
  now_second :: jsstring
  JSON_stringify :: "snapshot \<Rightarrow> jsstring"
  store_accepts :: bool

definition form_data :: "browser \<Rightarrow> form \<Rightarrow> task" where
  "form_data br f =
     \<lparr>tid = (if task_id f \<noteq> [] then task_id f else generateId br),
      title = Some (act_title f),
      name = None,
      date = act_date f,
      category = act_category f,
      time = (if act_time f \<noteq> [] then act_time f else js ''09:00''),
      duration = parseFloat br (act_duration f),
      status = act_status f,
      urgent = act_urgent f,
      cancelReason = act_cancel_reason f,
      task_notes = act_notes f,
      updatedAt = now_first br,
      createdAt = None\<rparr>"

text \<open>\<open>{...old, ...data}\<close>: the form's data has every field but \<open>name\<close> and \<open>createdAt\<close>.\<close>

definition merge :: "task \<Rightarrow> task \<Rightarrow> task" where
  "merge old data = data\<lparr>name := name old, createdAt := createdAt old\<rparr>"

fun findIndex :: "('a \<Rightarrow> bool) \<Rightarrow> 'a list \<Rightarrow> nat option" where
  "findIndex P [] = None"
| "findIndex P (x # xs) =
     (if P x then Some 0 else map_option Suc (findIndex P xs))"

definition Storage_save :: "browser \<Rightarrow> app_state \<Rightarrow> app_state" where
  "Storage_save br st =
     (if store_accepts br
      then st\<lparr>persisted :=
             Some (JSON_stringify br \<lparr>snap_tasks = items (tasks st), snap_settings = settings st\<rparr>)\<rparr>
      else st)"

definition closeForm :: "app_state \<Rightarrow> app_state" where
  "closeForm st = st\<lparr>modal_hidden := True\<rparr>"

definition handleSave :: "browser \<Rightarrow> form \<Rightarrow> app_state \<Rightarrow> app_state" where
  "handleSave br f st =
     (let taskId = task_id f;
          data = form_data br f;
          errors = validateTask data
      in if errors \<noteq> [] then st\<lparr>alerts := alerts st @ [snd (hd errors)]\<rparr>
         else
           let ts = tasks st;
               ts' =
                 (if taskId \<noteq> [] then
                    (case findIndex (\<lambda>t. tid t = taskId) (items ts) of
                       Some idx \<Rightarrow> ts\<lparr>items := (items ts)[idx := merge (items ts ! idx) data]\<rparr>
                     | None \<Rightarrow>
                         ts\<lparr>stray := Some (case stray ts of None \<Rightarrow> data
                                              | Some old \<Rightarrow> merge old data)\<rparr>)
                  else ts\<lparr>items := items ts @ [data\<lparr>createdAt := Some (now_second br)\<rparr>]\<rparr>)
           in closeForm (Storage_save br (st\<lparr>tasks := ts'\<rparr>)))"

section \<open>SearchEngine\<close>

text \<open>
  An exception is a value: a function that can throw returns \<open>Inl\<close> of the error.
  \<open>try_catch\<close> is \<open>try { body } catch (e) { handler(e) }\<close>.
\<close>

datatype js_error = JsError (message: jsstring)

definition try_catch :: "js_error + 'a \<Rightarrow> (js_error \<Rightarrow> js_error + 'a) \<Rightarrow> js_error + 'a" where
  "try_catch body handler = (case body of Inl e \<Rightarrow> handler e | Inr v \<Rightarrow> Inr v)"

text \<open>
  A compiled RegExp is what its \<open>test\<close> answers for a text when \<open>lastIndex\<close> is \<open>0\<close>;
  \<open>filterTasks\<close> resets \<open>lastIndex\<close> before each test. The constructor \<open>new RegExp\<close>
  is the platform's and is a parameter: it returns the RegExp or throws a SyntaxError.
\<close>

type_synonym regexp = "jsstring \<Rightarrow> bool"

definition compileRegex ::
    "(jsstring \<Rightarrow> jsstring \<Rightarrow> js_error + regexp) \<Rightarrow> jsstring \<Rightarrow> bool \<Rightarrow> js_error + regexp option" where
  "compileRegex new_RegExp pattern caseInsensitive =
     (if pattern = [] \<or> trim pattern = [] then Inr None
      else try_catch
             (let flags = (if caseInsensitive then js ''gi'' else js ''g'')
              in case new_RegExp pattern flags of
                   Inl e \<Rightarrow> Inl e
                 | Inr r \<Rightarrow> Inr (Some r))
             (\<lambda>error. Inr None))"

definition or_empty :: "jsstring option \<Rightarrow> jsstring" where
  "or_empty a = (case a of None \<Rightarrow> [] | Some s \<Rightarrow> s)"

text \<open>The text a task is searched in: four fields joined by single spaces.\<close>

definition search_content :: "task \<Rightarrow> jsstring" where
  "search_content t =
     or_empty (or_else (title t) (name t)) @ js '' '' @ category t @ js '' '' @
     task_notes t @ js '' '' @ cancelReason t"

definition filterTasks :: "task list \<Rightarrow> regexp option \<Rightarrow> task list" where
  "filterTasks ts regex =
     (case regex of
        None \<Rightarrow> ts
      | Some r \<Rightarrow> filter (\<lambda>t. r (search_content t)) ts)"

section \<open>Storage.exportJSON and Storage.importJSON\<close>

text \<open>
  A value that \<open>JSON.parse\<close> returns. An object lists its properties; \<open>JSON.parse\<close>
  returns no property twice.
\<close>

datatype json =
    JNull
  | JBool bool
  | JNumber jsnum
  | JString jsstring
  | JArray "json list"
  | JObject "(jsstring \<times> json) list"

fun truthy :: "json \<Rightarrow> bool" where
  "truthy JNull = False"
| "truthy (JBool b) = b"
| "truthy (JNumber n) = truthy_num n"
| "truthy (JString s) = (s \<noteq> [])"
| "truthy (JArray xs) = True"
| "truthy (JObject fs) = True"

fun typeof_object :: "json \<Rightarrow> bool" where
  "typeof_object JNull = True"
| "typeof_object (JArray xs) = True"
| "typeof_object (JObject fs) = True"
| "typeof_object v = False"

text \<open>\<open>v.tasks\<close> on an object or an array (an array has no such property).\<close>

fun get_tasks :: "json \<Rightarrow> json option" where
  "get_tasks (JObject fs) = map_of fs (js ''tasks'')"
| "get_tasks v = None"

fun isArray :: "json option \<Rightarrow> bool" where
  "isArray (Some (JArray xs)) = True"
| "isArray v = False"

datatype import_result = Success json | Failure jsstring

definition msg_invalid_registry :: jsstring where
  "msg_invalid_registry = js ''Invalid registry format: Missing mandatory 'tasks' array.''"

text \<open>\<open>JSON.parse\<close> is the platform's and is a parameter: the value, or a SyntaxError.\<close>

definition importJSON :: "(jsstring \<Rightarrow> js_error + json) \<Rightarrow> jsstring \<Rightarrow> js_error + import_result" where
  "importJSON JSON_parse jsonString =
     try_catch
       (case JSON_parse jsonString of
          Inl e \<Rightarrow> Inl e
        | Inr parsed \<Rightarrow>
            if \<not> truthy parsed \<or> \<not> typeof_object parsed \<or> \<not> isArray (get_tasks parsed)
            then Inl (JsError msg_invalid_registry)
            else Inr (Success parsed))
       (\<lambda>e. Inr (Failure (message e)))"



section \<open>Helpers.calculateBalance\<close>

text \<open>
  \<open>stats\<close> starts as \<open>{work: 0, life: 0}\<close>. A task whose category is found adds its
  duration to \<open>stats[type]\<close>; a type other than \<open>work\<close> and \<open>life\<close> makes a property of
  its own and leaves the two sums alone.
\<close>

record stats =
  work :: jsnum
  life :: jsnum

definition find_category :: "category_rec list \<Rightarrow> task \<Rightarrow> category_rec option" where
  "find_category cs t = find (\<lambda>c. cat_id c = category t \<or> label c = category t) cs"

definition type_or_work :: "category_rec \<Rightarrow> jsstring" where
  "type_or_work c = (if cat_type c \<noteq> [] then cat_type c else js ''work'')"

definition add_task :: "category_rec list \<Rightarrow> stats \<Rightarrow> task \<Rightarrow> stats" where
  "add_task cs st t =
     (case find_category cs t of
        None \<Rightarrow> st
      | Some cat \<Rightarrow>
          let ty = type_or_work cat
          in if ty = js ''work'' then st\<lparr>work := js_add (work st) (duration t)\<rparr>
             else if ty = js ''life'' then st\<lparr>life := js_add (life st) (duration t)\<rparr>
             else st)"

record balance =
  workPerc :: jsnum
  lifePerc :: jsnum
  workSum :: jsnum
  lifeSum :: jsnum

definition zero_num :: jsnum where
  "zero_num = Finite False 0 (- 1074)"

definition one_num :: jsnum where
  "one_num = Finite False (2 ^ 52) (- 52)"

definition hundred_num :: jsnum where
  "hundred_num = Finite False (25 * 2 ^ 48) (- 46)"

text \<open>
  The result carries the two percentages and the two sums; the source formats the sums
  with \<open>toFixed(1)\<close> for display, which is left out.
\<close>

definition calculateBalance :: "task list \<Rightarrow> category_rec list \<Rightarrow> balance" where
  "calculateBalance ts cs =
     (let st = foldl (add_task cs) \<lparr>work = zero_num, life = zero_num\<rparr> ts;
          sum = js_add (work st) (life st);
          total = (if truthy_num sum then sum else one_num)
      in \<lparr>workPerc = js_mul (js_div (work st) total) hundred_num,
          lifePerc = js_mul (js_div (life st) total) hundred_num,
          workSum = work st,
          lifeSum = life st\<rparr>)"

section \<open>Definitions that follow the words of the specification\<close>

text \<open>
  The specification's reading of the balance: each percentage divides by the combined
  total ``floored to 1'', that is by 1 when the total is below 1.
\<close>

definition js_less :: "jsnum \<Rightarrow> jsnum \<Rightarrow> bool" where
  "js_less x y \<longleftrightarrow> is_finite x \<and> is_finite y \<and> signed_value x < signed_value y"

definition floored_total :: "jsnum \<Rightarrow> jsnum" where
  "floored_total x = (if js_less x one_num then one_num else x)"

text \<open>
  The type of the category a task is matched to, and the sum of the durations of the
  tasks of one type, added in the order of the list.
\<close>

definition task_type :: "category_rec list \<Rightarrow> task \<Rightarrow> jsstring option" where
  "task_type cs t = map_option type_or_work (find_category cs t)"

definition bucket_sum :: "category_rec list \<Rightarrow> jsstring \<Rightarrow> task list \<Rightarrow> jsnum" where
  "bucket_sum cs ty ts =
     foldl js_add zero_num (map duration (filter (\<lambda>t. task_type cs t = Some ty) ts))"

text \<open>What the code divides by: the combined total, or 1 when the total is zero or NaN.\<close>

definition divisor :: "jsnum \<Rightarrow> jsnum" where
  "divisor x = (if x = NaN \<or> is_zero x then one_num else x)"

text \<open>
  A non-negative number that is an exact multiple of 0.25: a finite value, not below
  zero, whose fourfold is whole.
\<close>

definition quarter_multiple :: "jsnum \<Rightarrow> bool" where
  "quarter_multiple x \<longleftrightarrow>
     is_finite x \<and> 0 \<le> signed_value x \<and> of_int \<lfloor>4 * signed_value x\<rfloor> = 4 * signed_value x"

text \<open>
  A title without padding, as the title pattern reads it: its first and its last unit
  are not whitespace, and no line terminator stands between them.
\<close>

definition title_unpadded :: "jsstring \<Rightarrow> bool" where
  "title_unpadded s \<longleftrightarrow>
     (\<exists>c. s = [c] \<and> \<not> is_space c) \<or>
     (\<exists>c mid d. s = c # mid @ [d] \<and> \<not> is_space c \<and> \<not> is_space d \<and>
        (\<forall>x \<in> set mid. \<not> is_line_terminator x))"

text \<open>Leading or trailing whitespace in a title.\<close>

definition has_padding :: "jsstring \<Rightarrow> bool" where
  "has_padding s \<longleftrightarrow> s \<noteq> [] \<and> (is_space (hd s) \<or> is_space (last s))"

text \<open>
  The words of a title are what its whitespace separates: the maximal runs of units
  that are not whitespace. \<open>words_from cur s\<close> reads \<open>s\<close> with the word being read
  kept, reversed, in \<open>cur\<close>.
\<close>

fun words_from :: "jsstring \<Rightarrow> jsstring \<Rightarrow> jsstring list" where
  "words_from cur [] = (if cur = [] then [] else [rev cur])"
| "words_from cur (c # cs) =
     (if is_space c then (if cur = [] then words_from [] cs else rev cur # words_from [] cs)
      else words_from (c # cur) cs)"

definition words_of :: "jsstring \<Rightarrow> jsstring list" where
  "words_of s = words_from [] s"

text \<open>
  Comparing without regard to case: the letters \<open>A\<close> to \<open>Z\<close> are read as \<open>a\<close> to
  \<open>z\<close>. Other units are compared as they are, which decides the comparison of two
  words that are the same unit for unit or differ in length.
\<close>

definition fold_case :: "code_unit \<Rightarrow> code_unit" where
  "fold_case c = (if of_char CHR ''A'' \<le> c \<and> c \<le> of_char CHR ''Z'' then c + 32 else c)"

fun adjacent_same :: "'a list \<Rightarrow> bool" where
  "adjacent_same (x # y # xs) \<longleftrightarrow> x = y \<or> adjacent_same (y # xs)"
| "adjacent_same xs \<longleftrightarrow> False"

text \<open>
  Two identical words, compared without regard to case, separated only by whitespace:
  two words of the title that follow each other and are the same.
\<close>

definition repeats_a_word :: "jsstring \<Rightarrow> bool" where
  "repeats_a_word s \<longleftrightarrow> adjacent_same (map (map fold_case) (words_of s))"

text \<open>
  What the duplicate-word pattern reads instead. Its words are runs of \<open>\w\<close>
  characters: \<open>w1\<close> and \<open>w2\<close> consist of such characters, none stands right before
  \<open>w1\<close> or right after \<open>w2\<close>, whitespace and nothing else stands between them, and the
  two are the same in the pattern's canonical form.
\<close>

definition word_run_repeated :: "jsstring \<Rightarrow> bool" where
  "word_run_repeated s \<longleftrightarrow>
     (\<exists>pre w1 sp w2 post.
        s = pre @ w1 @ sp @ w2 @ post \<and>
        w1 \<noteq> [] \<and> (\<forall>c \<in> set w1. is_word_char c) \<and>
        sp \<noteq> [] \<and> (\<forall>c \<in> set sp. is_space c) \<and>
        map canonicalize w2 = map canonicalize w1 \<and>
        (pre = [] \<or> \<not> is_word_char (last pre)) \<and>
        (post = [] \<or> \<not> is_word_char (hd post)))"

section \<open>Example inputs\<close>

definition half_num :: jsnum where
  "half_num = Finite False (2 ^ 52) (- 53)"

definition fifty_num :: jsnum where
  "fifty_num = Finite False (25 * 2 ^ 48) (- 47)"

text \<open>A serializer that writes the ids of the tasks and nothing else.\<close>

definition ex_stringify :: "snapshot \<Rightarrow> jsstring" where
  "ex_stringify sn =
     js ''{\"tasks\":['' @ concat (map (\<lambda>t. js ''{\"id\":\"'' @ tid t @ js ''\"}'') (snap_tasks sn)) @
     js '']}''"

text \<open>A browser whose \<open>parseFloat\<close> reads every duration field as \<open>0\<close>.\<close>

definition ex_browser :: browser where
  "ex_browser = \<lparr>parseFloat = (\<lambda>s. zero_num), generateId = js ''rec_1_1'',
     now_first = js ''2024-03-01T10:00:00.000Z'', now_second = js ''2024-03-01T10:00:00.001Z'',
     JSON_stringify = ex_stringify, store_accepts = True\<rparr>"

definition ex_form :: "string \<Rightarrow> string \<Rightarrow> form" where
  "ex_form i t = \<lparr>task_id = js i, act_title = js t, act_date = js ''2024-03-01'',
     act_category = js ''academic'', act_time = [], act_duration = js ''0'',
     act_status = js ''planned'', act_urgent = False, act_cancel_reason = [], act_notes = []\<rparr>"

definition ex_state :: app_state where
  "ex_state = \<lparr>tasks = \<lparr>items = [], stray = None\<rparr>,
      settings = \<lparr>capacity = zero_num, categories = []\<rparr>,
      persisted = None, modal_hidden = False, alerts = []\<rparr>"

text \<open>The title \<open>a\<close>, line feed, \<open>b\<close>.\<close>

definition ex_two_lines :: jsstring where
  "ex_two_lines = js ''a'' @ [10] @ js ''b''"

definition ex_category :: category_rec where
  "ex_category = \<lparr>cat_id = js ''academic'', label = js ''Academic'', color = js ''#3b82f6'',
     cat_type = js ''work''\<rparr>"

definition ex_task :: task where
  "ex_task = \<lparr>tid = js ''rec_1_1'', title = Some (js ''Study Math''), name = None,
     date = js ''2024-03-01'', category = js ''academic'', time = js ''09:00'',
     duration = zero_num, status = js ''planned'', urgent = False, cancelReason = [],
     task_notes = [], updatedAt = [], createdAt = None\<rparr>"

text \<open>A planner that holds this one task.\<close>

definition ex_planner :: app_state where
  "ex_planner = ex_state\<lparr>tasks := \<lparr>items = [ex_task], stray = None\<rparr>\<rparr>"

text \<open>The title \<open>caf\<close>, e with acute accent, space, \<open>caf\<close>, e with acute accent.\<close>

definition ex_cafe_cafe :: jsstring where
  "ex_cafe_cafe = js ''caf'' @ [233] @ js '' caf'' @ [233]"

text \<open>The same task, half an hour long.\<close>

definition ex_half_hour :: task where
  "ex_half_hour = ex_task\<lparr>duration := half_num\<rparr>"

text \<open>The duration \<open>10^21\<close> hours, the double \<open>7629394531250000 * 2^17\<close>.\<close>

definition ex_sextillion :: jsnum where
  "ex_sextillion = Finite False 7629394531250000 17"

text \<open>A \<open>RegExp\<close> constructor that rejects the pattern \<open>[\<close>, as the platform's does.\<close>

definition ex_new_RegExp :: "jsstring \<Rightarrow> jsstring \<Rightarrow> js_error + regexp" where
  "ex_new_RegExp p flags =
     (if p = js ''['' then Inl (JsError (js ''Invalid regular expression: missing /''))
      else Inr (\<lambda>text. True))"

text \<open>A \<open>JSON.parse\<close> that knows two texts and rejects every other.\<close>

definition ex_JSON_parse :: "jsstring \<Rightarrow> js_error + json" where
  "ex_JSON_parse text =
     (if text = js ''{\"tasks\":[]}'' then Inr (JObject [(js ''tasks'', JArray [])])
      else if text = js ''[]'' then Inr (JArray [])
      else Inl (JsError (js ''Unexpected token'')))"





section \<open>What the patterns match\<close>

lemma run_Star:
  "run (Star P # rs) bs as caps \<longleftrightarrow>
     (\<exists>n \<le> length (takeWhile P as). run rs (rev (take n as) @ bs) (drop n as) caps)"
proof (induction as arbitrary: bs)
  case Nil
  then show ?case by simp
next
  case (Cons c cs)
  show ?case
  proof (cases "P c")
    case False
    then show ?thesis by simp
  next
    case True
    have "(\<exists>n \<le> Suc (length (takeWhile P cs)). run rs (rev (take n (c # cs)) @ bs) (drop n (c # cs)) caps)
        \<longleftrightarrow> run rs bs (c # cs) caps \<or>
            (\<exists>n \<le> length (takeWhile P cs). run rs (rev (take n cs) @ c # bs) (drop n cs) caps)"
      (is "?L \<longleftrightarrow> ?R")
    proof
      assume ?L
      then obtain n where n: "n \<le> Suc (length (takeWhile P cs))"
        "run rs (rev (take n (c # cs)) @ bs) (drop n (c # cs)) caps" by blast
      show ?R
      proof (cases n)
        case 0
        with n show ?thesis by simp
      next
        case (Suc k)
        with n show ?thesis by auto
      qed
    next
      assume ?R
      then show ?L
      proof
        assume "run rs bs (c # cs) caps"
        then have "run rs (rev (take 0 (c # cs)) @ bs) (drop 0 (c # cs)) caps" by simp
        then show ?L by blast
      next
        assume "\<exists>n \<le> length (takeWhile P cs). run rs (rev (take n cs) @ c # bs) (drop n cs) caps"
        then obtain n where "n \<le> length (takeWhile P cs)"
          "run rs (rev (take n cs) @ c # bs) (drop n cs) caps" by blast
        then have "Suc n \<le> Suc (length (takeWhile P cs))"
          "run rs (rev (take (Suc n) (c # cs)) @ bs) (drop (Suc n) (c # cs)) caps" by simp_all
        then show ?L by blast
      qed
    qed
    with True Cons.IH [of "c # bs"] show ?thesis by auto
  qed
qed

lemma run_Chr:
  "run (Chr P # rs) bs as caps \<longleftrightarrow> (\<exists>c cs. as = c # cs \<and> P c \<and> run rs (c # bs) cs caps)"
  by (cases as) auto

lemma regex_test_iff:
  "regex_test rs input \<longleftrightarrow> (\<exists>pre post. input = pre @ post \<and> run rs (rev pre) post (\<lambda>_. None))"
proof
  assume "regex_test rs input"
  then obtain i where "i \<le> length input" "run rs (rev (take i input)) (drop i input) (\<lambda>_. None)"
    unfolding regex_test_def list_ex_iff by (auto simp: less_Suc_eq_le simp del: upt_Suc)
  then have "input = take i input @ drop i input \<and> run rs (rev (take i input)) (drop i input) (\<lambda>_. None)"
    by simp
  then show "\<exists>pre post. input = pre @ post \<and> run rs (rev pre) post (\<lambda>_. None)" by blast
next
  assume "\<exists>pre post. input = pre @ post \<and> run rs (rev pre) post (\<lambda>_. None)"
  then obtain pre post where p: "input = pre @ post" "run rs (rev pre) post (\<lambda>_. None)" by blast
  then have "length pre \<le> length input" "take (length pre) input = pre" "drop (length pre) input = post"
    by simp_all
  with p show "regex_test rs input"
    unfolding regex_test_def list_ex_iff
    by (intro bexI [of _ "length pre"]) (auto simp: less_Suc_eq_le simp del: upt_Suc)
qed

lemma le_takeWhile_iff:
  "n \<le> length (takeWhile P xs) \<longleftrightarrow> n \<le> length xs \<and> (\<forall>x \<in> set (take n xs). P x)"
proof (induction xs arbitrary: n)
  case Nil
  then show ?case by simp
next
  case (Cons x xs)
  show ?case
  proof (cases n)
    case 0
    then show ?thesis by simp
  next
    case (Suc k)
    with Cons.IH [of k] show ?thesis by auto
  qed
qed

lemma pattern_title_iff: "regex_test pattern_title s \<longleftrightarrow> title_unpadded s"
proof -
  have "regex_test pattern_title s \<longleftrightarrow>
      (\<exists>c cs. s = c # cs \<and> \<not> is_space c \<and>
         (cs = [] \<or> (\<exists>n \<le> length cs. (\<forall>x \<in> set (take n cs). \<not> is_line_terminator x) \<and>
             (\<exists>d. drop n cs = [d] \<and> \<not> is_space d))))"
    unfolding regex_test_iff pattern_title_def
    by (auto simp: run_Chr run_Star le_takeWhile_iff)
  also have "\<dots> \<longleftrightarrow> title_unpadded s"
  proof
    assume "\<exists>c cs. s = c # cs \<and> \<not> is_space c \<and>
         (cs = [] \<or> (\<exists>n \<le> length cs. (\<forall>x \<in> set (take n cs). \<not> is_line_terminator x) \<and>
             (\<exists>d. drop n cs = [d] \<and> \<not> is_space d)))"
    then obtain c cs where s: "s = c # cs" "\<not> is_space c" and
      r: "cs = [] \<or> (\<exists>n \<le> length cs. (\<forall>x \<in> set (take n cs). \<not> is_line_terminator x) \<and>
             (\<exists>d. drop n cs = [d] \<and> \<not> is_space d))" by blast
    from r show "title_unpadded s"
    proof
      assume "cs = []"
      with s show ?thesis by (simp add: title_unpadded_def)
    next
      assume "\<exists>n \<le> length cs. (\<forall>x \<in> set (take n cs). \<not> is_line_terminator x) \<and>
             (\<exists>d. drop n cs = [d] \<and> \<not> is_space d)"
      then obtain n d where n: "\<forall>x \<in> set (take n cs). \<not> is_line_terminator x"
        "drop n cs = [d]" "\<not> is_space d" by blast
      have "cs = take n cs @ drop n cs" by simp
      with n have "s = c # take n cs @ [d]" using s by simp
      with n s show ?thesis unfolding title_unpadded_def by blast
    qed
  next
    assume "title_unpadded s"
    then show "\<exists>c cs. s = c # cs \<and> \<not> is_space c \<and>
         (cs = [] \<or> (\<exists>n \<le> length cs. (\<forall>x \<in> set (take n cs). \<not> is_line_terminator x) \<and>
             (\<exists>d. drop n cs = [d] \<and> \<not> is_space d)))"
      unfolding title_unpadded_def
    proof (elim disjE exE conjE)
      fix c assume "s = [c]" "\<not> is_space c"
      then show ?thesis by simp
    next
      fix c mid d
      assume a: "s = c # mid @ [d]" "\<not> is_space c" "\<not> is_space d"
        "\<forall>x \<in> set mid. \<not> is_line_terminator x"
      then have "length mid \<le> length (mid @ [d]) \<and>
          (\<forall>x \<in> set (take (length mid) (mid @ [d])). \<not> is_line_terminator x) \<and>
          (\<exists>e. drop (length mid) (mid @ [d]) = [e] \<and> \<not> is_space e)" by simp
      with a show ?thesis by blast
    qed
  qed
  finally show ?thesis .
qed


lemma run_Star_split:
  "run (Star P # rs) bs as caps \<longleftrightarrow>
     (\<exists>w rest. as = w @ rest \<and> (\<forall>c \<in> set w. P c) \<and> run rs (rev w @ bs) rest caps)"
proof
  assume "run (Star P # rs) bs as caps"
  then obtain n where n: "n \<le> length as" "\<forall>x \<in> set (take n as). P x"
    "run rs (rev (take n as) @ bs) (drop n as) caps"
    by (auto simp: run_Star le_takeWhile_iff)
  have "as = take n as @ drop n as" by simp
  with n show "\<exists>w rest. as = w @ rest \<and> (\<forall>c \<in> set w. P c) \<and> run rs (rev w @ bs) rest caps"
    by blast
next
  assume "\<exists>w rest. as = w @ rest \<and> (\<forall>c \<in> set w. P c) \<and> run rs (rev w @ bs) rest caps"
  then obtain w rest where w: "as = w @ rest" "\<forall>c \<in> set w. P c" "run rs (rev w @ bs) rest caps"
    by blast
  then have "length w \<le> length as \<and> (\<forall>x \<in> set (take (length w) as). P x) \<and>
      run rs (rev (take (length w) as) @ bs) (drop (length w) as) caps" by simp
  then show "run (Star P # rs) bs as caps"
    unfolding run_Star le_takeWhile_iff by blast
qed

lemma run_Plus:
  "run (Plus P @ rs) bs as caps \<longleftrightarrow>
     (\<exists>w rest. as = w @ rest \<and> w \<noteq> [] \<and> (\<forall>c \<in> set w. P c) \<and> run rs (rev w @ bs) rest caps)"
proof
  assume "run (Plus P @ rs) bs as caps"
  then obtain c cs w rest where a: "as = c # cs" "P c" "cs = w @ rest" "\<forall>x \<in> set w. P x"
    "run rs (rev w @ c # bs) rest caps"
    by (auto simp: Plus_def run_Chr run_Star_split)
  then have "as = (c # w) @ rest \<and> c # w \<noteq> [] \<and> (\<forall>x \<in> set (c # w). P x) \<and>
      run rs (rev (c # w) @ bs) rest caps" by simp
  then show "\<exists>w rest. as = w @ rest \<and> w \<noteq> [] \<and> (\<forall>c \<in> set w. P c) \<and> run rs (rev w @ bs) rest caps"
    by blast
next
  assume "\<exists>w rest. as = w @ rest \<and> w \<noteq> [] \<and> (\<forall>c \<in> set w. P c) \<and> run rs (rev w @ bs) rest caps"
  then obtain w rest where w: "as = w @ rest" "w \<noteq> []" "\<forall>c \<in> set w. P c"
    "run rs (rev w @ bs) rest caps" by blast
  then obtain c w' where c: "w = c # w'" by (cases w) auto
  with w have "as = c # (w' @ rest) \<and> P c \<and> (\<forall>x \<in> set w'. P x) \<and> run rs (rev w' @ c # bs) rest caps"
    by simp
  then show "run (Plus P @ rs) bs as caps"
    unfolding Plus_def by (auto simp: run_Chr run_Star_split)
qed

lemma run_Group_Plus:
  "run (Group g (Plus P) # rs) bs as caps \<longleftrightarrow>
     (\<exists>w rest. as = w @ rest \<and> w \<noteq> [] \<and> (\<forall>c \<in> set w. P c) \<and>
        run rs (rev w @ bs) rest (caps(g \<mapsto> w)))"
proof -
  have "run (Group g (Plus P) # rs) bs as caps = run (Plus P @ EndGroup g (length bs) # rs) bs as caps"
    by simp
  also have "\<dots> \<longleftrightarrow> (\<exists>w rest. as = w @ rest \<and> w \<noteq> [] \<and> (\<forall>c \<in> set w. P c) \<and>
        run (EndGroup g (length bs) # rs) (rev w @ bs) rest caps)"
    by (rule run_Plus)
  also have "\<dots> \<longleftrightarrow> (\<exists>w rest. as = w @ rest \<and> w \<noteq> [] \<and> (\<forall>c \<in> set w. P c) \<and>
        run rs (rev w @ bs) rest (caps(g \<mapsto> w)))"
    by simp
  finally show ?thesis .
qed

lemma run_BackRefI:
  assumes "caps g = Some w"
  shows "run (BackRefI g # rs) bs as caps \<longleftrightarrow>
     (\<exists>w2 rest. as = w2 @ rest \<and> map canonicalize w2 = map canonicalize w \<and>
        run rs (rev w2 @ bs) rest caps)"
proof
  assume "run (BackRefI g # rs) bs as caps"
  with assms have a: "length w \<le> length as" "map canonicalize (take (length w) as) = map canonicalize w"
    "run rs (rev (take (length w) as) @ bs) (drop (length w) as) caps"
    by (auto split: if_splits)
  have "as = take (length w) as @ drop (length w) as" by simp
  with a show "\<exists>w2 rest. as = w2 @ rest \<and> map canonicalize w2 = map canonicalize w \<and>
        run rs (rev w2 @ bs) rest caps" by blast
next
  assume "\<exists>w2 rest. as = w2 @ rest \<and> map canonicalize w2 = map canonicalize w \<and>
        run rs (rev w2 @ bs) rest caps"
  then obtain w2 rest where w: "as = w2 @ rest" "map canonicalize w2 = map canonicalize w"
    "run rs (rev w2 @ bs) rest caps" by blast
  from w(2) have "length w2 = length w" by (rule map_eq_imp_length_eq)
  with w assms show "run (BackRefI g # rs) bs as caps" by simp
qed

lemma run_BackRefI_upd:
  "run (BackRefI g # rs) bs as (caps(g \<mapsto> w)) \<longleftrightarrow>
     (\<exists>w2 rest. as = w2 @ rest \<and> map canonicalize w2 = map canonicalize w \<and>
        run rs (rev w2 @ bs) rest (caps(g \<mapsto> w)))"
  by (rule run_BackRefI) simp

lemma run_WordB_end: "run [WordB] bs as caps \<longleftrightarrow> word_at bs \<noteq> word_at as"
  by simp

lemma run_duplicateWords:
  "run pattern_duplicateWords bs as (\<lambda>_. None) \<longleftrightarrow>
     word_at bs \<noteq> word_at as \<and>
     (\<exists>w1 sp w2 rest. as = w1 @ sp @ w2 @ rest \<and>
        w1 \<noteq> [] \<and> (\<forall>c \<in> set w1. is_word_char c) \<and>
        sp \<noteq> [] \<and> (\<forall>c \<in> set sp. is_space c) \<and>
        map canonicalize w2 = map canonicalize w1 \<and>
        word_at (rev w2 @ rev sp @ rev w1 @ bs) \<noteq> word_at rest)"
proof -
  have "run pattern_duplicateWords bs as (\<lambda>_. None) \<longleftrightarrow>
      word_at bs \<noteq> word_at as \<and>
      run (Group 1 (Plus is_word_char) # (Plus is_space @ [BackRefI 1, WordB])) bs as (\<lambda>_. None)"
    by (simp add: pattern_duplicateWords_def)
  also have "\<dots> \<longleftrightarrow> word_at bs \<noteq> word_at as \<and>
     (\<exists>w1 r1. as = w1 @ r1 \<and> w1 \<noteq> [] \<and> (\<forall>c \<in> set w1. is_word_char c) \<and>
        (\<exists>sp r2. r1 = sp @ r2 \<and> sp \<noteq> [] \<and> (\<forall>c \<in> set sp. is_space c) \<and>
           (\<exists>w2 rest. r2 = w2 @ rest \<and> map canonicalize w2 = map canonicalize w1 \<and>
              word_at (rev w2 @ rev sp @ rev w1 @ bs) \<noteq> word_at rest)))"
    by (simp only: run_Group_Plus run_Plus run_BackRefI_upd run_WordB_end append_assoc)
  also have "\<dots> \<longleftrightarrow> word_at bs \<noteq> word_at as \<and>
     (\<exists>w1 sp w2 rest. as = w1 @ sp @ w2 @ rest \<and>
        w1 \<noteq> [] \<and> (\<forall>c \<in> set w1. is_word_char c) \<and>
        sp \<noteq> [] \<and> (\<forall>c \<in> set sp. is_space c) \<and>
        map canonicalize w2 = map canonicalize w1 \<and>
        word_at (rev w2 @ rev sp @ rev w1 @ bs) \<noteq> word_at rest)"
    by blast
  finally show ?thesis .
qed

lemma word_at_rev: "word_at (rev xs) \<longleftrightarrow> xs \<noteq> [] \<and> is_word_char (last xs)"
  by (cases xs rule: rev_cases) auto

lemma word_at_hd: "word_at xs \<longleftrightarrow> xs \<noteq> [] \<and> is_word_char (hd xs)"
  by (cases xs) auto

lemma canon_word: "canonicalize a = canonicalize b \<Longrightarrow> is_word_char b \<Longrightarrow> is_word_char a"
  by (auto simp: canonicalize_def is_word_char_def is_digit_def split: if_splits)

lemma pattern_duplicateWords_iff:
  "regex_test pattern_duplicateWords s \<longleftrightarrow> word_run_repeated s"
proof -
  have key: "word_at (rev pre) \<noteq> word_at (w1 @ sp @ w2 @ post) \<and>
      word_at (rev w2 @ rev sp @ rev w1 @ rev pre) \<noteq> word_at post \<longleftrightarrow>
      (pre = [] \<or> \<not> is_word_char (last pre)) \<and> (post = [] \<or> \<not> is_word_char (hd post))"
    if w: "w1 \<noteq> []" "\<forall>c \<in> set w1. is_word_char c" "map canonicalize w2 = map canonicalize w1"
    for pre w1 sp w2 post :: jsstring
  proof -
    from w(3) have len: "length w2 = length w1" by (rule map_eq_imp_length_eq)
    with w(1) have w2: "w2 \<noteq> []" by auto
    from w(1,2) have a: "word_at (w1 @ sp @ w2 @ post)" by (cases w1) auto
    from w2 len have "last w2 = w2 ! (length w1 - 1)" by (simp add: last_conv_nth)
    moreover from w(3) len w(1) have "canonicalize (w2 ! (length w1 - 1)) = canonicalize (w1 ! (length w1 - 1))"
      by (metis diff_less length_greater_0_conv nth_map zero_less_one)
    moreover from w(1,2) have "is_word_char (w1 ! (length w1 - 1))" by simp
    ultimately have "is_word_char (last w2)" by (metis canon_word)
    with w2 have b: "word_at (rev w2 @ rev sp @ rev w1 @ rev pre)"
      by (cases w2 rule: rev_cases) auto
    have c: "word_at (rev pre) \<longleftrightarrow> pre \<noteq> [] \<and> is_word_char (last pre)"
      by (rule word_at_rev)
    have d: "word_at post \<longleftrightarrow> post \<noteq> [] \<and> is_word_char (hd post)"
      by (rule word_at_hd)
    from a b c d show ?thesis by blast
  qed
  show ?thesis
    unfolding regex_test_iff run_duplicateWords word_run_repeated_def
  proof
    assume "\<exists>pre post. s = pre @ post \<and>
       word_at (rev pre) \<noteq> word_at post \<and>
       (\<exists>w1 sp w2 rest. post = w1 @ sp @ w2 @ rest \<and> w1 \<noteq> [] \<and> (\<forall>c\<in>set w1. is_word_char c) \<and>
           sp \<noteq> [] \<and> (\<forall>c\<in>set sp. is_space c) \<and> map canonicalize w2 = map canonicalize w1 \<and>
           word_at (rev w2 @ rev sp @ rev w1 @ rev pre) \<noteq> word_at rest)"
    then obtain pre w1 sp w2 rest where a: "s = pre @ w1 @ sp @ w2 @ rest"
      "word_at (rev pre) \<noteq> word_at (w1 @ sp @ w2 @ rest)" "w1 \<noteq> []" "\<forall>c\<in>set w1. is_word_char c"
      "sp \<noteq> []" "\<forall>c\<in>set sp. is_space c" "map canonicalize w2 = map canonicalize w1"
      "word_at (rev w2 @ rev sp @ rev w1 @ rev pre) \<noteq> word_at rest" by blast
    with key [of w1 w2 pre sp rest]
    have "(pre = [] \<or> \<not> is_word_char (last pre)) \<and> (rest = [] \<or> \<not> is_word_char (hd rest))"
      by blast
    with a show "\<exists>pre w1 sp w2 post. s = pre @ w1 @ sp @ w2 @ post \<and> w1 \<noteq> [] \<and>
       (\<forall>c\<in>set w1. is_word_char c) \<and> sp \<noteq> [] \<and> (\<forall>c\<in>set sp. is_space c) \<and>
       map canonicalize w2 = map canonicalize w1 \<and>
       (pre = [] \<or> \<not> is_word_char (last pre)) \<and> (post = [] \<or> \<not> is_word_char (hd post))"
      by blast
  next
    assume "\<exists>pre w1 sp w2 post. s = pre @ w1 @ sp @ w2 @ post \<and> w1 \<noteq> [] \<and>
       (\<forall>c\<in>set w1. is_word_char c) \<and> sp \<noteq> [] \<and> (\<forall>c\<in>set sp. is_space c) \<and>
       map canonicalize w2 = map canonicalize w1 \<and>
       (pre = [] \<or> \<not> is_word_char (last pre)) \<and> (post = [] \<or> \<not> is_word_char (hd post))"
    then obtain pre w1 sp w2 post where a: "s = pre @ w1 @ sp @ w2 @ post" "w1 \<noteq> []"
      "\<forall>c\<in>set w1. is_word_char c" "sp \<noteq> []" "\<forall>c\<in>set sp. is_space c"
      "map canonicalize w2 = map canonicalize w1"
      "(pre = [] \<or> \<not> is_word_char (last pre)) \<and> (post = [] \<or> \<not> is_word_char (hd post))"
      by blast
    with key [of w1 w2 pre sp post]
    have "word_at (rev pre) \<noteq> word_at (w1 @ sp @ w2 @ post) \<and>
      word_at (rev w2 @ rev sp @ rev w1 @ rev pre) \<noteq> word_at post" by blast
    with a show "\<exists>pre post. s = pre @ post \<and>
       word_at (rev pre) \<noteq> word_at post \<and>
       (\<exists>w1 sp w2 rest. post = w1 @ sp @ w2 @ rest \<and> w1 \<noteq> [] \<and> (\<forall>c\<in>set w1. is_word_char c) \<and>
           sp \<noteq> [] \<and> (\<forall>c\<in>set sp. is_space c) \<and> map canonicalize w2 = map canonicalize w1 \<and>
           word_at (rev w2 @ rev sp @ rev w1 @ rev pre) \<noteq> word_at rest)"
      by blast
  qed
qed

section \<open>The title rules\<close>

lemma dropWhile_keeps: "(\<exists>c \<in> set (dropWhile P xs). \<not> P c) \<longleftrightarrow> (\<exists>c \<in> set xs. \<not> P c)"
  by (induction xs) auto

lemma trim_nonempty_iff: "trim s \<noteq> [] \<longleftrightarrow> (\<exists>c \<in> set s. \<not> is_space c)"
proof -
  have "trim s \<noteq> [] \<longleftrightarrow> (\<exists>c \<in> set (rev (dropWhile is_space s)). \<not> is_space c)"
    unfolding trim_def rev_is_Nil_conv dropWhile_eq_Nil_conv by blast
  also have "\<dots> \<longleftrightarrow> (\<exists>c \<in> set (dropWhile is_space s). \<not> is_space c)"
    by simp
  also have "\<dots> \<longleftrightarrow> (\<exists>c \<in> set s. \<not> is_space c)"
    by (rule dropWhile_keeps)
  finally show ?thesis .
qed

text \<open>
  When the code reports padding: for a title that is not blank, exactly when it has
  leading or trailing whitespace or a line terminator between its first and last unit.
\<close>

lemma title_padding_rule:
  assumes "trim s \<noteq> []"
  shows "title_errors (Some s) = [(''title'', msg_title_padding)] \<longleftrightarrow>
     has_padding s \<or> (\<exists>c \<in> set (butlast (tl s)). is_line_terminator c)"
proof -
  from assms have ne: "s \<noteq> []" by (auto simp: trim_def)
  have "title_unpadded s \<longleftrightarrow>
      \<not> is_space (hd s) \<and> \<not> is_space (last s) \<and> (\<forall>c \<in> set (butlast (tl s)). \<not> is_line_terminator c)"
  proof (cases s)
    case Nil
    with ne show ?thesis by simp
  next
    case (Cons c cs)
    show ?thesis
    proof (cases cs rule: rev_cases)
      case Nil
      with Cons show ?thesis by (auto simp: title_unpadded_def)
    next
      case (snoc mid d)
      with Cons show ?thesis by (auto simp: title_unpadded_def)
    qed
  qed
  with assms ne show ?thesis
    by (auto simp: title_errors_def pattern_title_iff has_padding_def msg_title_padding_def
        msg_title_duplicate_def)
qed

text \<open>
  C3 fails on the code: the title \<open>a\<close>, line feed, \<open>b\<close> is not blank and has no
  leading or trailing whitespace, and \<open>validateTask\<close> reports it as padded. The \<open>.\<close>
  of the title pattern does not match a line terminator.
\<close>

theorem title_line_break_reported_as_padding:
  "trim ex_two_lines \<noteq> [] \<and> \<not> has_padding ex_two_lines \<and>
   validateTask (ex_task\<lparr>title := Some ex_two_lines\<rparr>) = [(''title'', msg_title_padding)]"
  by code_simp

text \<open>
  The duplicate-word error is reported exactly for a title that passed the presence rule
  and the padding rule and that the duplicate-word pattern matches. So the error is
  never reported for a title that failed one of the two earlier rules.
\<close>

lemma duplicate_error_iff:
  "(''title'', msg_title_duplicate) \<in> set (validateTask d) \<longleftrightarrow>
     (\<exists>s. activityTitle d = Some s \<and> trim s \<noteq> [] \<and> regex_test pattern_title s \<and>
          word_run_repeated s)"
proof -
  have other: "(''title'', msg_title_duplicate) \<notin> set (duration_errors (duration d))"
    "(''title'', msg_title_duplicate) \<notin> set (date_errors (date d))"
    "(''title'', msg_title_duplicate) \<notin> set (cancel_errors (status d) (cancelReason d))"
    by (simp_all add: duration_errors_def date_errors_def cancel_errors_def Let_def)
  have ne: "msg_title_duplicate \<noteq> msg_title_required" "msg_title_duplicate \<noteq> msg_title_padding"
    by (simp_all add: msg_title_duplicate_def msg_title_required_def msg_title_padding_def)
  have "(''title'', msg_title_duplicate) \<in> set (title_errors (activityTitle d)) \<longleftrightarrow>
     (\<exists>s. activityTitle d = Some s \<and> trim s \<noteq> [] \<and> regex_test pattern_title s \<and>
          word_run_repeated s)"
  proof (cases "activityTitle d")
    case None
    with ne show ?thesis by (simp add: title_errors_def)
  next
    case (Some s)
    have "trim [] = []" by (simp add: trim_def)
    with Some ne show ?thesis
      by (auto simp: title_errors_def pattern_duplicateWords_iff)
  qed
  with other show ?thesis by (simp add: validateTask_def)
qed

text \<open>
  C4 fails on the code, in both directions. The title \<open>go go-kart\<close> has the two words
  \<open>go\<close> and \<open>go-kart\<close>, which are not the same, and \<open>validateTask\<close> reports duplicate
  words: the pattern ends a word at the hyphen. The title made of the word \<open>caf\<close>, e
  with acute accent, written twice with a space between, repeats a word, and
  \<open>validateTask\<close> reports nothing: the pattern's \<open>\w\<close> does not take the accented
  letter, so that no word boundary follows the second occurrence. For comparison, the
  title \<open>Gym gYM\<close> repeats a word and is reported.
\<close>

theorem duplicate_words_misreported:
  "words_of (js ''go go-kart'') = [js ''go'', js ''go-kart''] \<and>
   \<not> repeats_a_word (js ''go go-kart'') \<and>
   validateTask (ex_task\<lparr>title := Some (js ''go go-kart'')\<rparr>) = [(''title'', msg_title_duplicate)] \<and>
   repeats_a_word ex_cafe_cafe \<and>
   validateTask (ex_task\<lparr>title := Some ex_cafe_cafe\<rparr>) = [] \<and>
   repeats_a_word (js ''Gym gYM'') \<and>
   validateTask (ex_task\<lparr>title := Some (js ''Gym gYM'')\<rparr>) = [(''title'', msg_title_duplicate)]"
  by code_simp

text \<open>
  Where the pattern's words are the title's words the two agree: a repeated word is
  reported whatever the case of its letters and wherever it stands, and a word that
  comes back after another word is not.
\<close>

lemma duplicate_words_agree:
  "repeats_a_word (js ''Study Study'') \<and>
   validateTask (ex_task\<lparr>title := Some (js ''Study Study'')\<rparr>) = [(''title'', msg_title_duplicate)] \<and>
   repeats_a_word (js ''My Gym Gym day'') \<and>
   validateTask (ex_task\<lparr>title := Some (js ''My Gym Gym day'')\<rparr>) = [(''title'', msg_title_duplicate)] \<and>
   \<not> repeats_a_word (js ''Gym and Gym'') \<and>
   validateTask (ex_task\<lparr>title := Some (js ''Gym and Gym'')\<rparr>) = []"
  by code_simp

section \<open>The duration rule\<close>

text \<open>
  C2 fails on the code. The duration \<open>10^21\<close> is a number, not negative, and a whole
  number of hours, so an exact multiple of 0.25. \<open>String\<close> writes it as \<open>1e+21\<close>, which
  the duration pattern does not match, and \<open>validateTask\<close> reports the duration error.
\<close>

theorem large_duration_rejected:
  "wf_num ex_sextillion \<and> signed_value ex_sextillion = 10 ^ 21 \<and>
   quarter_multiple ex_sextillion \<and>
   number_toString ex_sextillion = js ''1e+21'' \<and>
   validateTask (ex_task\<lparr>duration := ex_sextillion\<rparr>) = [(''duration'', msg_duration)]"
  by code_simp

section \<open>Validation gates every save\<close>

text \<open>
  C1. When \<open>validateTask\<close> returns a non-empty error object for the candidate built from
  the form, \<open>handleSave\<close> leaves the task collection and the store as they are, with
  or without a task id in the form (create or update): all it does is show the first
  message.
\<close>

theorem handleSave_rejects_invalid:
  assumes "validateTask (form_data br f) \<noteq> []"
  shows "tasks (handleSave br f st) = tasks st \<and>
         persisted (handleSave br f st) = persisted st \<and>
         handleSave br f st = st\<lparr>alerts := alerts st @ [snd (hd (validateTask (form_data br f)))]\<rparr>"
  using assms by (simp add: handleSave_def Let_def)

text \<open>The scenario of the specification: creating a task titled \<open>Gym Gym\<close>.\<close>

theorem handleSave_rejects_invalid_witness:
  "validateTask (form_data ex_browser (ex_form [] ''Gym Gym'')) = [(''title'', msg_title_duplicate)] \<and>
   tasks (handleSave ex_browser (ex_form [] ''Gym Gym'') ex_state) = tasks ex_state \<and>
   persisted (handleSave ex_browser (ex_form [] ''Gym Gym'') ex_state) = persisted ex_state \<and>
   alerts (handleSave ex_browser (ex_form [] ''Gym Gym'') ex_state) = [msg_title_duplicate]"
proof -
  have v: "validateTask (form_data ex_browser (ex_form [] ''Gym Gym'')) = [(''title'', msg_title_duplicate)]"
    by code_simp
  then have ne: "validateTask (form_data ex_browser (ex_form [] ''Gym Gym'')) \<noteq> []"
    by simp
  from handleSave_rejects_invalid [OF ne, of ex_state] v show ?thesis
    by (simp add: ex_state_def)
qed

section \<open>Updating a task that is not there\<close>

text \<open>
  C8 fails on the code. The planner holds the task \<open>rec_1_1\<close> and the form carries the
  id \<open>rec_404\<close> with valid fields. \<open>findIndex\<close> finds no record and \<open>handleSave\<close> goes
  on with its result unchecked: it shows no message, leaves the stored task as it was,
  puts the edited record into the property \<open>-1\<close> of the array, writes the store and
  closes the form. The edit is lost without an error.
\<close>

theorem update_absent_id_no_error:
  "findIndex (\<lambda>t. tid t = task_id (ex_form ''rec_404'' ''Study Math'')) (items (tasks ex_planner)) = None \<and>
   validateTask (form_data ex_browser (ex_form ''rec_404'' ''Study Math'')) = [] \<and>
   alerts (handleSave ex_browser (ex_form ''rec_404'' ''Study Math'') ex_planner) = [] \<and>
   items (tasks (handleSave ex_browser (ex_form ''rec_404'' ''Study Math'') ex_planner)) = [ex_task] \<and>
   stray (tasks (handleSave ex_browser (ex_form ''rec_404'' ''Study Math'') ex_planner)) =
     Some (form_data ex_browser (ex_form ''rec_404'' ''Study Math'')) \<and>
   persisted (handleSave ex_browser (ex_form ''rec_404'' ''Study Math'') ex_planner) =
     Some (js ''{\"tasks\":[{\"id\":\"rec_1_1\"}]}'') \<and>
   modal_hidden (handleSave ex_browser (ex_form ''rec_404'' ''Study Math'') ex_planner)"
  by code_simp

section \<open>Which field carries the title\<close>

text \<open>
  C10. With a non-empty \<open>name\<close>, \<open>validateTask\<close> applies the three title rules
  (presence, padding, duplicate words) to \<open>name\<close>, whatever \<open>title\<close> is; \<open>title\<close> is
  judged only when \<open>name\<close> is absent or empty. \<open>filterTasks\<close> searches a text that
  starts with \<open>title\<close> when that is a non-empty string and with \<open>name\<close> otherwise.
\<close>

theorem name_before_title:
  "(n \<noteq> [] \<longrightarrow>
      validateTask (d\<lparr>name := Some n, title := t\<rparr>) =
        title_errors (Some n) @ duration_errors (duration d) @ date_errors (date d) @
        cancel_errors (status d) (cancelReason d)) \<and>
   (nm = None \<or> nm = Some [] \<longrightarrow>
      validateTask (d\<lparr>name := nm, title := t\<rparr>) =
        title_errors t @ duration_errors (duration d) @ date_errors (date d) @
        cancel_errors (status d) (cancelReason d)) \<and>
   (s \<noteq> [] \<longrightarrow>
      search_content (d\<lparr>title := Some s, name := nm\<rparr>) =
        s @ js '' '' @ category d @ js '' '' @ task_notes d @ js '' '' @ cancelReason d) \<and>
   (tt = None \<or> tt = Some [] \<longrightarrow>
      search_content (d\<lparr>title := tt, name := nm\<rparr>) =
        or_empty nm @ js '' '' @ category d @ js '' '' @ task_notes d @ js '' '' @ cancelReason d) \<and>
   filterTasks ts (Some r) = filter (\<lambda>x. r (search_content x)) ts"
  by (auto simp: validateTask_def activityTitle_def search_content_def filterTasks_def or_empty_def
      split: option.splits)

text \<open>
  A record named \<open>Gym Gym\<close> and titled \<open>Study Math\<close> is rejected for its name, and is
  searched by its title.
\<close>

theorem name_before_title_witness:
  "validateTask (ex_task\<lparr>name := Some (js ''Gym Gym''), title := Some (js ''Study Math'')\<rparr>) =
     title_errors (Some (js ''Gym Gym'')) @ duration_errors (duration ex_task) @
     date_errors (date ex_task) @ cancel_errors (status ex_task) (cancelReason ex_task) \<and>
   title_errors (Some (js ''Gym Gym'')) = [(''title'', msg_title_duplicate)] \<and>
   title_errors (Some (js ''Study Math'')) = [] \<and>
   search_content (ex_task\<lparr>title := Some (js ''Study Math''), name := Some (js ''Gym Gym'')\<rparr>) =
     js ''Study Math academic  ''"
proof -
  have ne: "js ''Gym Gym'' \<noteq> []" "js ''Study Math'' \<noteq> []"
    by (simp_all add: js_def)
  have e1: "title_errors (Some (js ''Gym Gym'')) = [(''title'', msg_title_duplicate)]"
    by code_simp
  have e2: "title_errors (Some (js ''Study Math'')) = []"
    by code_simp
  from name_before_title [where n = "js ''Gym Gym''" and d = ex_task
      and t = "Some (js ''Study Math'')" and nm = "Some (js ''Gym Gym'')"
      and s = "js ''Study Math''" and tt = None and ts = "[]" and r = "\<lambda>x. True"] ne e1 e2
  show ?thesis
    by (simp add: ex_task_def js_def)
qed

section \<open>Compiling a search pattern\<close>

text \<open>
  C5. \<open>compileRegex\<close> returns and never throws, whatever the pattern: \<open>null\<close> for a
  pattern the \<open>RegExp\<close> constructor rejects and for the empty pattern; and
  \<open>filterTasks\<close> with \<open>null\<close> returns the list it was given.
\<close>

theorem compileRegex_never_throws:
  "(\<exists>r. compileRegex new_RegExp pattern ci = Inr r) \<and>
   ((\<exists>e. new_RegExp pattern (if ci then js ''gi'' else js ''g'') = Inl e) \<longrightarrow>
      compileRegex new_RegExp pattern ci = Inr None) \<and>
   compileRegex new_RegExp [] ci = Inr None \<and>
   filterTasks ts None = ts"
  by (auto simp: compileRegex_def try_catch_def filterTasks_def Let_def split: sum.splits)

theorem compileRegex_never_throws_witness:
  "ex_new_RegExp (js ''['') (js ''gi'') = Inl (JsError (js ''Invalid regular expression: missing /'')) \<and>
   compileRegex ex_new_RegExp (js ''['') True = Inr None \<and>
   compileRegex ex_new_RegExp [] True = Inr None \<and>
   filterTasks [ex_task] None = [ex_task]"
proof -
  have h: "\<exists>e. ex_new_RegExp (js ''['') (if True then js ''gi'' else js ''g'') = Inl e"
    by (simp add: ex_new_RegExp_def)
  from compileRegex_never_throws [of ex_new_RegExp "js ''[''" True "[ex_task]"] h
  show ?thesis by (simp add: ex_new_RegExp_def)
qed

section \<open>Importing a snapshot\<close>

lemma accepts_iff:
  "(truthy v \<and> typeof_object v \<and> isArray (get_tasks v)) \<longleftrightarrow>
     (\<exists>fs xs. v = JObject fs \<and> map_of fs (js ''tasks'') = Some (JArray xs))"
proof (cases v)
  case (JObject fs)
  then show ?thesis
    by (cases "map_of fs (js ''tasks'')" rule: isArray.cases) auto
qed auto

text \<open>
  C6. \<open>importJSON\<close> returns and never throws. It returns success with the parsed value
  exactly when the text parses to an object whose \<open>tasks\<close> property is an array,
  whatever the array holds; otherwise (the text does not parse, the value is not an
  object, \<open>tasks\<close> is missing or not an array) it returns a failure with a message.
\<close>

theorem importJSON_total:
  "(\<exists>r. importJSON JSON_parse text = Inr r) \<and>
   (importJSON JSON_parse text = Inr (Success v) \<longleftrightarrow>
      JSON_parse text = Inr v \<and>
      (\<exists>fs xs. v = JObject fs \<and> map_of fs (js ''tasks'') = Some (JArray xs))) \<and>
   ((\<forall>w fs xs. \<not> (JSON_parse text = Inr w \<and> w = JObject fs \<and>
        map_of fs (js ''tasks'') = Some (JArray xs))) \<longrightarrow>
      (\<exists>msg. importJSON JSON_parse text = Inr (Failure msg)))"
proof (cases "JSON_parse text")
  case (Inl e)
  then show ?thesis by (simp add: importJSON_def try_catch_def)
next
  case (Inr w)
  show ?thesis
  proof (cases "truthy w \<and> typeof_object w \<and> isArray (get_tasks w)")
    case True
    with Inr accepts_iff [of w] show ?thesis
      by (auto simp: importJSON_def try_catch_def)
  next
    case False
    with Inr accepts_iff [of w] show ?thesis
      by (auto simp: importJSON_def try_catch_def)
  qed
qed

theorem importJSON_total_witness:
  "importJSON ex_JSON_parse (js ''{\"tasks\":[]}'') = Inr (Success (JObject [(js ''tasks'', JArray [])])) \<and>
   (\<exists>msg. importJSON ex_JSON_parse (js ''[]'') = Inr (Failure msg)) \<and>
   (\<exists>msg. importJSON ex_JSON_parse (js ''{tasks'') = Inr (Failure msg))"
proof -
  have p1: "ex_JSON_parse (js ''{\"tasks\":[]}'') = Inr (JObject [(js ''tasks'', JArray [])])"
    by (simp add: ex_JSON_parse_def)
  have p2: "ex_JSON_parse (js ''[]'') = Inr (JArray [])"
    by (simp add: ex_JSON_parse_def js_def)
  have p3: "ex_JSON_parse (js ''{tasks'') = Inl (JsError (js ''Unexpected token''))"
    by (simp add: ex_JSON_parse_def js_def)
  from importJSON_total [of ex_JSON_parse "js ''{\"tasks\":[]}''" "JObject [(js ''tasks'', JArray [])]"] p1
  have a: "importJSON ex_JSON_parse (js ''{\"tasks\":[]}'') = Inr (Success (JObject [(js ''tasks'', JArray [])]))"
    by simp
  from importJSON_total [of ex_JSON_parse "js ''[]''" JNull] p2
  have b: "\<exists>msg. importJSON ex_JSON_parse (js ''[]'') = Inr (Failure msg)"
    by simp
  from importJSON_total [of ex_JSON_parse "js ''{tasks''" JNull] p3
  have c: "\<exists>msg. importJSON ex_JSON_parse (js ''{tasks'') = Inr (Failure msg)"
    by simp
  from a b c show ?thesis by simp
qed

section \<open>Exporting and importing again\<close>



section \<open>The work and life balance\<close>

text \<open>
  C9 as stated fails. One task of half an hour in a work category: the combined total
  is \<open>0.5\<close>, the code divides by it and returns \<open>100\<close>; dividing by the total floored
  to \<open>1\<close> would give \<open>50\<close>.
\<close>

theorem balance_floor_counterexample:
  "workPerc (calculateBalance [ex_half_hour] [ex_category]) = hundred_num \<and>
   js_mul (js_div (bucket_sum [ex_category] (js ''work'') [ex_half_hour])
       (floored_total (js_add (bucket_sum [ex_category] (js ''work'') [ex_half_hour])
                              (bucket_sum [ex_category] (js ''life'') [ex_half_hour]))))
      hundred_num = fifty_num \<and>
   hundred_num \<noteq> fifty_num"
  by code_simp

lemma foldl_add_task:
  "foldl (add_task cs) \<lparr>work = w, life = l\<rparr> ts =
     \<lparr>work = foldl js_add w (map duration (filter (\<lambda>t. task_type cs t = Some (js ''work'')) ts)),
      life = foldl js_add l (map duration (filter (\<lambda>t. task_type cs t = Some (js ''life'')) ts))\<rparr>"
proof (induction ts arbitrary: w l)
  case Nil
  then show ?case by simp
next
  case (Cons t ts)
  have ne: "js ''work'' \<noteq> js ''life''" by (simp add: js_def)
  show ?case
  proof (cases "find_category cs t")
    case None
    then show ?thesis using Cons.IH [of w l] by (simp add: add_task_def task_type_def)
  next
    case (Some c)
    then show ?thesis using Cons.IH ne
      by (auto simp: add_task_def task_type_def Let_def)
  qed
qed

text \<open>
  C9, amended. Each percentage is the sum of the durations of the tasks whose matched
  category has that type (a category without a type counts as work), divided by the
  combined work-plus-life total and multiplied by 100; the combined total is replaced
  by 1 only when it is zero (or NaN), not when it is merely below 1.
\<close>

theorem balance_percentages:
  "workPerc (calculateBalance ts cs) =
     js_mul (js_div (bucket_sum cs (js ''work'') ts)
        (divisor (js_add (bucket_sum cs (js ''work'') ts) (bucket_sum cs (js ''life'') ts))))
      hundred_num \<and>
   lifePerc (calculateBalance ts cs) =
     js_mul (js_div (bucket_sum cs (js ''life'') ts)
        (divisor (js_add (bucket_sum cs (js ''work'') ts) (bucket_sum cs (js ''life'') ts))))
      hundred_num"
  by (simp add: calculateBalance_def Let_def foldl_add_task bucket_sum_def divisor_def truthy_num_def)

theorem balance_percentages_witness:
  "workPerc (calculateBalance [] [ex_category]) =
     js_mul (js_div zero_num one_num) hundred_num \<and>
   lifePerc (calculateBalance [] [ex_category]) =
     js_mul (js_div zero_num one_num) hundred_num"
  using balance_percentages [of "[]" "[ex_category]"]
  by (simp add: bucket_sum_def divisor_def js_add_def zero_num_def)

end
